theory Spec2Isabelle
  imports Complex_Main
begin

section \<open>Python values used by the simulator\<close>

text \<open>
  Python floats are modelled as \<^typ>\<open>real\<close> and Python ints as \<^typ>\<open>int\<close>.
  A \<^verbatim>\<open>dict\<close> is an association list in insertion order with Python's
  update rule: assigning to an existing key replaces the value in place, assigning
  to a new key appends the pair.
\<close>

type_synonym 'v dict = "(string \<times> 'v) list"

primrec dict_set :: "string \<Rightarrow> 'v \<Rightarrow> 'v dict \<Rightarrow> 'v dict" where
  "dict_set k v [] = [(k, v)]"
| "dict_set k v (p # ps) = (if fst p = k then (k, v) # ps else p # dict_set k v ps)"

definition dict_get :: "'v dict \<Rightarrow> string \<Rightarrow> 'v \<Rightarrow> 'v" where
  \<comment> \<open>\<^verbatim>\<open>d.get(k, default)\<close>; also reading a \<^verbatim>\<open>defaultdict(int)\<close> with default 0\<close>
  "dict_get d k dflt = (case map_of d k of None \<Rightarrow> dflt | Some v \<Rightarrow> v)"

definition dict_keys :: "'v dict \<Rightarrow> string list" where
  "dict_keys d = map fst d"

datatype error = ValueError | IndexError

subsection \<open>Pseudo-random generators\<close>

text \<open>
  The program draws from three generators: the module-level generator of
  \<^verbatim>\<open>random\<close>, the module-level generator of \<^verbatim>\<open>numpy.random\<close>, and the
  local \<^verbatim>\<open>random.Random(seed)\<close> of \<^verbatim>\<open>run_simulation\<close>. The generators
  belong to the Python runtime, not to the repository. A generator is modelled by
  the sequence of raw words it is going to produce and the number of words
  consumed so far; each library call consumes one word and reduces it to its range.
\<close>

record gen =
  draws :: "nat \<Rightarrow> int"
  pos :: nat

definition getrand :: "gen \<Rightarrow> int \<times> gen" where
  "getrand g = (draws g (pos g), g\<lparr>pos := Suc (pos g)\<rparr>)"

definition random_unit :: "gen \<Rightarrow> real \<times> gen" where
  \<comment> \<open>\<^verbatim>\<open>random()\<close>: a float in the half-open interval from 0 to 1\<close>
  "random_unit g = (case getrand g of (k, g') \<Rightarrow> (real_of_int (k mod 2 ^ 53) / 2 ^ 53, g'))"

definition uniform :: "real \<Rightarrow> real \<Rightarrow> gen \<Rightarrow> real \<times> gen" where
  \<comment> \<open>\<^verbatim>\<open>uniform(a, b)\<close> is \<^verbatim>\<open>a + (b - a) * random()\<close>\<close>
  "uniform a b g = (case random_unit g of (u, g') \<Rightarrow> (a + (b - a) * u, g'))"

definition randbelow :: "nat \<Rightarrow> gen \<Rightarrow> nat \<times> gen" where
  "randbelow n g = (case getrand g of (k, g') \<Rightarrow> (nat (k mod int n), g'))"

definition randint :: "int \<Rightarrow> int \<Rightarrow> gen \<Rightarrow> int \<times> gen" where
  \<comment> \<open>\<^verbatim>\<open>randint(a, b)\<close> with \<^verbatim>\<open>a <= b\<close>, both ends included\<close>
  "randint a b g = (case randbelow (nat (b - a + 1)) g of (k, g') \<Rightarrow> (a + int k, g'))"

definition choice :: "'a list \<Rightarrow> gen \<Rightarrow> 'a \<times> gen" where
  \<comment> \<open>\<^verbatim>\<open>random.choice(seq)\<close> on a non-empty sequence\<close>
  "choice xs g = (case randbelow (length xs) g of (k, g') \<Rightarrow> (xs ! k, g'))"

section \<open>Supplier (supplier.py)\<close>

record supplier =
  sup_id :: int
  sup_products :: "string list"
  sup_prices :: "real dict"

definition Supplier :: "int \<Rightarrow> supplier" where
  "Supplier supplier_id = \<lparr>sup_id = supplier_id, sup_products = [], sup_prices = []\<rparr>"

definition product_types :: "string list" where
  "product_types = [''proteins'', ''carbohydrates'', ''fruits'', ''vegetables'', ''sweets'']"

definition maybe_update_cost :: "supplier \<Rightarrow> string \<Rightarrow> real \<Rightarrow> real \<times> supplier" where
  \<comment> \<open>both branches of the source store the new cost; the stored cost is returned\<close>
  "maybe_update_cost s product new_cost =
     (let s' = (if product \<notin> set (dict_keys (sup_prices s))
                then s\<lparr>sup_prices := dict_set product new_cost (sup_prices s)\<rparr>
                else s\<lparr>sup_prices := dict_set product new_cost (sup_prices s)\<rparr>)
      in (dict_get (sup_prices s') product new_cost, s'))"

definition add_one_product :: "supplier \<times> gen \<Rightarrow> supplier \<times> gen" where
  \<comment> \<open>one turn of the loop of \<^verbatim>\<open>add_products\<close>\<close>
  "add_one_product sg =
     (case sg of (s, rnd) \<Rightarrow>
       (case choice product_types rnd of (p, rnd1) \<Rightarrow>
         (let s1 = s\<lparr>sup_products := sup_products s @ [p]\<rparr> in
          (case uniform 1 5 rnd1 of (c, rnd2) \<Rightarrow>
            (case maybe_update_cost s1 p c of (c', s2) \<Rightarrow>
              (s2\<lparr>sup_prices := dict_set p c' (sup_prices s2)\<rparr>, rnd2))))))"

fun add_many_products :: "nat \<Rightarrow> supplier \<times> gen \<Rightarrow> supplier \<times> gen" where
  \<comment> \<open>the loop \<^verbatim>\<open>for _ in range(n)\<close> of \<^verbatim>\<open>add_products\<close>\<close>
  "add_many_products 0 sg = sg"
| "add_many_products (Suc n) sg = add_many_products n (add_one_product sg)"

definition add_products :: "supplier \<Rightarrow> int option \<Rightarrow> gen \<Rightarrow> supplier \<times> gen" where
  \<comment> \<open>\<^verbatim>\<open>range(quantity)\<close> is empty for a negative quantity\<close>
  "add_products s quantity rnd =
     (case (case quantity of None \<Rightarrow> randint 1 10 rnd | Some q \<Rightarrow> (q, rnd)) of
        (q, rnd0) \<Rightarrow> add_many_products (nat q) (s, rnd0))"

fun pop_many :: "nat \<Rightarrow> string list \<Rightarrow> string list \<times> string list" where
  \<comment> \<open>\<^verbatim>\<open>[products.pop() for _ in range(n)]\<close>: the popped units and the rest;
      \<^verbatim>\<open>supply_products\<close> calls it only with \<open>n \<le> length ps\<close>, so no pop meets an empty list\<close>
  "pop_many 0 ps = ([], ps)"
| "pop_many (Suc n) ps =
     (case pop_many n (butlast ps) of (out, rest) \<Rightarrow> (last ps # out, rest))"

definition supply_products :: "supplier \<Rightarrow> int \<Rightarrow> error option \<times> string list \<times> supplier" where
  \<comment> \<open>first component: the \<^verbatim>\<open>ValueError\<close> that is raised, caught and printed inside
      the method when the inventory is too small (the InsufficientInventory
      condition of the specification); the method itself returns normally\<close>
  "supply_products s quantity =
     (if int (length (sup_products s)) < quantity then (Some ValueError, [], s)
      else (case pop_many (nat quantity) (sup_products s) of
              (out, rest) \<Rightarrow> (None, out, s\<lparr>sup_products := rest\<rparr>)))"

definition get_price :: "supplier \<Rightarrow> string \<Rightarrow> real" where
  "get_price s product = dict_get (sup_prices s) product 0"

section \<open>Grocery (grocery.py)\<close>

text \<open>
  The fuzzy controller \<^verbatim>\<open>discount_sim\<close> is built from the scikit-fuzzy library,
  which is not part of the repository. It is a field of the store: a function from
  the two clamped inputs (stock, sales) to the discount percentage. The cashier
  resource is represented by its capacity; its queue lives in the scheduler below.
\<close>

record grocery =
  stock :: "int dict"
  prices :: "real dict"
  costs :: "real dict"
  sales_count :: "int dict"
  num_cashiers :: nat
  discount_sim :: "int \<Rightarrow> int \<Rightarrow> real"
  demand_weights :: "real dict"

definition Grocery :: "(int \<Rightarrow> int \<Rightarrow> real) \<Rightarrow> nat \<Rightarrow> grocery" where
  "Grocery fuzzy n =
     \<lparr>stock = [], prices = [], costs = [], sales_count = [], num_cashiers = n,
      discount_sim = fuzzy,
      demand_weights = [(''proteins'', 30 / 100), (''carbohydrates'', 25 / 100),
        (''fruits'', 20 / 100), (''vegetables'', 15 / 100), (''sweets'', 10 / 100)]\<rparr>"

definition set_sale_price :: "grocery \<Rightarrow> string \<Rightarrow> real \<Rightarrow> grocery" where
  "set_sale_price g product price = g\<lparr>prices := dict_set product (max (1 / 100) price) (prices g)\<rparr>"

definition calculate_delivery_cost :: "real \<Rightarrow> real" where
  "calculate_delivery_cost distance_km =
     (if distance_km < 10 then 5
      else if distance_km < 20 then 10
      else if distance_km < 30 then 15
      else 20)"

definition add_stock_unit :: "supplier \<Rightarrow> string \<Rightarrow> grocery \<times> gen \<Rightarrow> grocery \<times> gen" where
  \<comment> \<open>one turn of the loop of \<^verbatim>\<open>add_stock\<close>; \<^verbatim>\<open>self.costs[product]\<close> is read
      after the cost has been stored, so the key is present\<close>
  "add_stock_unit supp product gr =
     (case gr of (g, rnd) \<Rightarrow>
       (let g1 = g\<lparr>stock := dict_set product (dict_get (stock g) product 0 + 1) (stock g)\<rparr>;
            g2 = (if product \<notin> set (dict_keys (costs g1))
                  then g1\<lparr>costs := dict_set product (get_price supp product) (costs g1)\<rparr>
                  else g1)
        in if product \<notin> set (dict_keys (prices g2))
           then (case uniform (12 / 10) (15 / 10) rnd of (u, rnd') \<Rightarrow>
                  (g2\<lparr>prices := dict_set product
                         (dict_get (costs g2) product 0 * u) (prices g2)\<rparr>, rnd'))
           else (g2, rnd)))"

definition add_stock :: "grocery \<Rightarrow> supplier \<Rightarrow> int \<Rightarrow> gen \<Rightarrow> grocery \<times> supplier \<times> gen" where
  "add_stock g supp quantity rnd =
     (case supply_products supp quantity of (err, products, supp') \<Rightarrow>
       (case fold (add_stock_unit supp') products (g, rnd) of (g', rnd') \<Rightarrow> (g', supp', rnd')))"

definition compute_discount :: "grocery \<Rightarrow> int \<Rightarrow> int \<Rightarrow> real" where
  "compute_discount g stock_units sales_units =
     (let s = max 0 (min 100 stock_units);
          v = max 0 (min 100 sales_units)
      in discount_sim g s v)"

definition price_floor :: "grocery \<Rightarrow> string \<Rightarrow> real" where
  \<comment> \<open>\<^verbatim>\<open>self.costs.get(product, 0.0) * 1.05\<close>\<close>
  "price_floor g product = dict_get (costs g) product 0 * (105 / 100)"

definition discount_product :: "string \<times> int \<Rightarrow> grocery \<Rightarrow> grocery" where
  \<comment> \<open>one turn of the loop of \<^verbatim>\<open>apply_discounts\<close>; a product without a price is skipped\<close>
  "discount_product item g =
     (case item of (product, stock_units) \<Rightarrow>
       if stock_units \<le> 0 then g
       else
         (case map_of (prices g) product of
            None \<Rightarrow> g
          | Some price \<Rightarrow>
              (let sales_units = dict_get (sales_count g) product 0;
                   discount_pct = compute_discount g stock_units sales_units;
                   new_price = price * (1 - discount_pct / 100)
               in g\<lparr>prices := dict_set product (max new_price (price_floor g product)) (prices g)\<rparr>)))"

definition apply_discounts :: "grocery \<Rightarrow> grocery" where
  "apply_discounts g = fold discount_product (stock g) g"

text \<open>
  \<^verbatim>\<open>numpy.random.choice(a, p=p)\<close>, after the library's documented algorithm: the
  probabilities must be non-negative and sum to 1 (within a tolerance), the
  cumulative sums are normalised by the last one, one unit draw is taken and the
  index is the insertion point to the right of the draw in the cumulative sums.
\<close>

fun cumsum :: "real \<Rightarrow> real list \<Rightarrow> real list" where
  "cumsum acc [] = []"
| "cumsum acc (x # xs) = (acc + x) # cumsum (acc + x) xs"

fun searchsorted_right :: "real list \<Rightarrow> real \<Rightarrow> nat" where
  \<comment> \<open>on an ascending list: the number of entries that are at most \<open>u\<close>\<close>
  "searchsorted_right [] u = 0"
| "searchsorted_right (c # cs) u = (if c \<le> u then Suc (searchsorted_right cs u) else 0)"

definition np_choice :: "string list \<Rightarrow> real list \<Rightarrow> gen \<Rightarrow> error + (string \<times> gen)" where
  "np_choice a p np =
     (if list_ex (\<lambda>x. x < 0) p then Inl ValueError
      else if \<bar>sum_list p - 1\<bar> > 149 / 10 ^ 10 then Inl ValueError
      else
        (let cdf = cumsum 0 p;
             cdf' = map (\<lambda>c. c / last cdf) cdf
         in (case random_unit np of (u, np') \<Rightarrow>
              (let idx = searchsorted_right cdf' u
               in if idx < length a then Inr (a ! idx, np') else Inl IndexError))))"

definition available_products :: "grocery \<Rightarrow> string list" where
  "available_products g = map fst (filter (\<lambda>pq. snd pq > 0) (stock g))"

definition sale_weights :: "grocery \<Rightarrow> string list \<Rightarrow> real list" where
  "sale_weights g available =
     (let weights = map (\<lambda>p. dict_get (demand_weights g) p (1 / 100)) available;
          weights1 = (if sum_list weights = 0 then replicate (length available) 1 else weights)
      in map (\<lambda>w. w / sum_list weights1) weights1)"

definition sell_one_product :: "grocery \<Rightarrow> gen \<Rightarrow> error + (string option \<times> grocery \<times> gen)" where
  "sell_one_product g np =
     (let available = available_products g in
      if available = [] then Inr (None, g, np)
      else
        (case np_choice available (sale_weights g available) np of
           Inl e \<Rightarrow> Inl e
         | Inr (product, np') \<Rightarrow>
             (let g1 = g\<lparr>stock := dict_set product (dict_get (stock g) product 0 - 1) (stock g)\<rparr>;
                  g2 = g1\<lparr>sales_count :=
                         dict_set product (dict_get (sales_count g1) product 0 + 1) (sales_count g1)\<rparr>
              in Inr (Some product, g2, np'))))"

definition reset_sales_counters :: "grocery \<Rightarrow> grocery" where
  "reset_sales_counters g = g\<lparr>sales_count := []\<rparr>"

section \<open>Simulation (main.py)\<close>

text \<open>
  The discrete-event library simpy is not part of the repository. Its scheduler is
  modelled after its documented behaviour: the event queue is ordered by time, then
  priority (urgent before normal), then insertion order; \<^verbatim>\<open>env.process(gen)\<close>
  does not run the generator but schedules an urgent initialisation event at the
  current time; a process runs, without interruption, from one \<^verbatim>\<open>yield\<close> to the
  next; a finished process is an event its parent waits for; a resource grants a
  request at once when a slot is free and otherwise queues it first-in first-out,
  and a release is itself an event whose processing serves the head of the queue.
  Each generator of \<^verbatim>\<open>main.py\<close> is cut at its \<^verbatim>\<open>yield\<close>s into the functions
  below; \<open>k\<close> is the day whose process runs. The field \<open>trace\<close> is not program
  state: it records, with the clock, the order in which the phases run.
\<close>

datatype day_label = Day int | Total

record ledger_entry =
  day :: day_label
  revenue :: real
  cogs :: real
  delivery_cost :: real
  profit :: real
  products_sold :: int

text \<open>
  Python's \<^verbatim>\<open>round\<close> acts on binary floating-point numbers, which the model replaces
  by reals.  It is therefore a parameter \<open>rnd\<close> of a run, standing for
  \<^verbatim>\<open>lambda x: round(x, 2)\<close>.  What is assumed of it, where something is, is
  \<open>nearest_cent\<close>: the result is a whole number of cents at most half a cent away from
  the argument; how a tie is resolved is left open.  \<open>round2\<close> is the instance that
  resolves a tie between two cents to the even one.
\<close>

definition nearest_cent :: "(real \<Rightarrow> real) \<Rightarrow> bool" where
  "nearest_cent rnd = (\<forall>x. (\<exists>k::int. rnd x = of_int k / 100) \<and> \<bar>rnd x - x\<bar> \<le> 1 / 200)"

definition round_half_even :: "real \<Rightarrow> int" where
  \<comment> \<open>a tie goes to the even neighbour\<close>
  "round_half_even x =
     (let f = \<lfloor>x\<rfloor>; r = x - of_int f
      in if r < 1 / 2 then f else if 1 / 2 < r then f + 1 else if even f then f else f + 1)"

definition round2 :: "real \<Rightarrow> real" where
  "round2 x = of_int (round_half_even (x * 100)) / 100"

definition day_entry ::
  "(real \<Rightarrow> real) \<Rightarrow> int \<Rightarrow> real \<Rightarrow> real \<Rightarrow> real \<Rightarrow> int \<Rightarrow> ledger_entry" where
  \<comment> \<open>lines 93 to 103 of \<^verbatim>\<open>run_day\<close>; the arguments are the day and the four values
      returned by the customers process\<close>
  "day_entry rnd d rv cg dc sold =
     (let pr = rv - (cg + dc)
      in \<lparr>day = Day d, revenue = rnd rv, cogs = rnd cg, delivery_cost = rnd dc,
          profit = rnd pr, products_sold = sold\<rparr>)"

definition total_entry :: "(real \<Rightarrow> real) \<Rightarrow> ledger_entry list \<Rightarrow> ledger_entry" where
  \<comment> \<open>the final row of \<^verbatim>\<open>run_simulation\<close>, summed over all rows present\<close>
  "total_entry rnd ds =
     \<lparr>day = Total,
      revenue = rnd (sum_list (map revenue ds)),
      cogs = rnd (sum_list (map cogs ds)),
      delivery_cost = rnd (sum_list (map delivery_cost ds)),
      profit = rnd (sum_list (map profit ds)),
      products_sold = sum_list (map products_sold ds)\<rparr>"

datatype event =
    InitDay nat
  | InitCustomers nat
  | Granted nat
  | ServiceDone nat
  | Released
  | CustomersDone nat
  | NextDay nat
  | DayDone nat

datatype action = Restock nat | Discount nat | Served nat "string option" | Ledger nat | Reset nat

text \<open>The locals of one \<^verbatim>\<open>_simulate_customers_for_day\<close> process.\<close>

record customers =
  remaining :: nat
  acc_revenue :: real
  acc_cogs :: real
  acc_delivery_cost :: real
  acc_products_sold :: int

type_synonym entry = "real \<times> nat \<times> nat \<times> event"

text \<open>
  A \<^verbatim>\<open>Simulation\<close> object, and the state of a run: the object together with the
  clock and queue of the environment, the users and waiting queue of the cashier
  resource, the locals of the processes, the local generator \<open>rng\<close> and the two
  module-level generators of the interpreter. The suppliers are distinct objects.
\<close>

record simulation =
  suppliers :: "supplier list"
  grocery :: grocery
  days :: int
  daily_balances :: "ledger_entry list"

record world = simulation +
  now :: real
  queue :: "entry list"
  eid :: nat
  users :: "nat list"
  put_queue :: "nat list"
  procs :: "nat \<Rightarrow> customers"
  rng :: gen
  py_random :: gen
  np_random :: gen
  trace :: "(real \<times> action) list"

definition URGENT :: nat where "URGENT = 0"
definition NORMAL :: nat where "NORMAL = 1"

definition before :: "entry \<Rightarrow> entry \<Rightarrow> bool" where
  "before a b =
     (case a of (t1, p1, e1, x1) \<Rightarrow> (case b of (t2, p2, e2, x2) \<Rightarrow>
        t1 < t2 \<or> (t1 = t2 \<and> (p1 < p2 \<or> (p1 = p2 \<and> e1 < e2)))))"

fun enqueue :: "entry \<Rightarrow> entry list \<Rightarrow> entry list" where
  "enqueue a [] = [a]"
| "enqueue a (b # bs) = (if before a b then a # b # bs else b # enqueue a bs)"

definition schedule :: "event \<Rightarrow> nat \<Rightarrow> real \<Rightarrow> world \<Rightarrow> world" where
  "schedule ev priority delay w =
     w\<lparr>queue := enqueue (now w + delay, priority, eid w, ev) (queue w), eid := Suc (eid w)\<rparr>"

definition log_action :: "action \<Rightarrow> world \<Rightarrow> world" where
  "log_action a w = w\<lparr>trace := trace w @ [(now w, a)]\<rparr>"

definition trigger_put :: "world \<Rightarrow> world" where
  \<comment> \<open>the resource looks at the head of its waiting queue only\<close>
  "trigger_put w =
     (case put_queue w of
        [] \<Rightarrow> w
      | k # rest \<Rightarrow>
          if length (users w) < num_cashiers (grocery w)
          then schedule (Granted k) NORMAL 0 (w\<lparr>users := users w @ [k], put_queue := rest\<rparr>)
          else w)"

definition request :: "nat \<Rightarrow> world \<Rightarrow> world" where
  "request k w = trigger_put (w\<lparr>put_queue := put_queue w @ [k]\<rparr>)"

definition release :: "nat \<Rightarrow> world \<Rightarrow> world" where
  "release k w = schedule Released NORMAL 0 (w\<lparr>users := remove1 k (users w)\<rparr>)"

fun restock_list :: "int \<Rightarrow> supplier list \<Rightarrow> grocery \<Rightarrow> gen \<Rightarrow> supplier list \<times> grocery \<times> gen" where
  "restock_list units [] g rnd = ([], g, rnd)"
| "restock_list units (s # ss) g rnd =
     (case add_products s (Some units) rnd of (s1, rnd1) \<Rightarrow>
       (case add_stock g s1 (max 0 (units div 2)) rnd1 of (g1, s2, rnd2) \<Rightarrow>
         (case restock_list units ss g1 rnd2 of (ss', g2, rnd3) \<Rightarrow> (s2 # ss', g2, rnd3))))"

definition restock_all_suppliers :: "int \<Rightarrow> world \<Rightarrow> world" where
  "restock_all_suppliers units w =
     (case restock_list units (suppliers w) (grocery w) (py_random w) of
        (ss, g, rnd) \<Rightarrow> w\<lparr>suppliers := ss, grocery := g, py_random := rnd\<rparr>)"

definition next_customer :: "nat \<Rightarrow> world \<Rightarrow> world" where
  \<comment> \<open>head of the \<^verbatim>\<open>for\<close> loop: request a cashier, or return when the loop is over\<close>
  "next_customer k w =
     (if remaining (procs w k) = 0 then schedule (CustomersDone k) NORMAL 0 w
      else request k w)"

definition run_day_start :: "nat \<Rightarrow> world \<Rightarrow> world" where
  \<comment> \<open>\<^verbatim>\<open>run_day\<close> up to \<^verbatim>\<open>yield proc\<close>\<close>
  "run_day_start k w =
     (let w1 = log_action (Restock k) (restock_all_suppliers 10 w);
          w2 = log_action (Discount k) (w1\<lparr>grocery := apply_discounts (grocery w1)\<rparr>)
      in schedule (InitCustomers k) URGENT 0 w2)"

definition customers_start :: "nat \<Rightarrow> world \<Rightarrow> world" where
  "customers_start k w =
     (case randint 8 20 (rng w) of (num_customers, r) \<Rightarrow>
        next_customer k
          (w\<lparr>rng := r,
             procs := (procs w)(k := \<lparr>remaining = nat num_customers, acc_revenue = 0,
                acc_cogs = 0, acc_delivery_cost = 0, acc_products_sold = 0\<rparr>)\<rparr>))"

definition customers_granted :: "nat \<Rightarrow> world \<Rightarrow> world" where
  "customers_granted k w =
     (case uniform (1 / 2) 2 (rng w) of (d, r) \<Rightarrow> schedule (ServiceDone k) NORMAL d (w\<lparr>rng := r\<rparr>))"

definition accrue :: "nat \<Rightarrow> string \<Rightarrow> world \<Rightarrow> world" where
  "accrue k sold_product w =
     (let price = dict_get (prices (grocery w)) sold_product 0;
          unit_cost = dict_get (costs (grocery w)) sold_product 0;
          c = procs w k
      in (case uniform 1 35 (rng w) of (distance, r) \<Rightarrow>
            w\<lparr>rng := r,
              procs := (procs w)(k := c\<lparr>acc_revenue := acc_revenue c + price,
                 acc_cogs := acc_cogs c + unit_cost,
                 acc_products_sold := acc_products_sold c + 1,
                 acc_delivery_cost := acc_delivery_cost c + calculate_delivery_cost distance\<rparr>)\<rparr>))"

definition customers_served :: "nat \<Rightarrow> world \<Rightarrow> error + world" where
  \<comment> \<open>after the service time: the sale, the exit of the \<^verbatim>\<open>with\<close> block, the next turn;
      \<^verbatim>\<open>if sold_product:\<close> is false for \<^verbatim>\<open>None\<close> and for the empty string; an
      exception of the sale ends the run\<close>
  "customers_served k w =
     (case sell_one_product (grocery w) (np_random w) of
        Inl e \<Rightarrow> Inl e
      | Inr (sold, g, np) \<Rightarrow>
          (let w1 = log_action (Served k sold) (w\<lparr>grocery := g, np_random := np\<rparr>);
               w2 = (case sold of
                       None \<Rightarrow> w1
                     | Some sold_product \<Rightarrow> if sold_product = [] then w1 else accrue k sold_product w1);
               w3 = release k w2;
               c = procs w3 k;
               w4 = w3\<lparr>procs := (procs w3)(k := c\<lparr>remaining := remaining c - 1\<rparr>)\<rparr>
           in Inr (next_customer k w4)))"

definition run_day_record :: "(real \<Rightarrow> real) \<Rightarrow> nat \<Rightarrow> world \<Rightarrow> world" where
  \<comment> \<open>\<^verbatim>\<open>run_day\<close> from the return of the customers process to \<^verbatim>\<open>yield timeout(1)\<close>\<close>
  "run_day_record rnd k w =
     (let c = procs w k;
          w1 = w\<lparr>daily_balances := daily_balances w @
                 [day_entry rnd (int k) (acc_revenue c) (acc_cogs c) (acc_delivery_cost c)
                    (acc_products_sold c)]\<rparr>
      in schedule (NextDay k) NORMAL 1 (log_action (Ledger k) w1))"

definition run_day_finish :: "nat \<Rightarrow> world \<Rightarrow> world" where
  "run_day_finish k w =
     schedule (DayDone k) NORMAL 0
       (log_action (Reset k) (w\<lparr>grocery := reset_sales_counters (grocery w)\<rparr>))"

fun fire :: "(real \<Rightarrow> real) \<Rightarrow> event \<Rightarrow> world \<Rightarrow> error + world" where
  "fire rnd (InitDay k) w = Inr (run_day_start k w)"
| "fire rnd (InitCustomers k) w = Inr (customers_start k w)"
| "fire rnd (Granted k) w = Inr (customers_granted k w)"
| "fire rnd (ServiceDone k) w = customers_served k w"
| "fire rnd Released w = Inr (trigger_put w)"
| "fire rnd (CustomersDone k) w = Inr (run_day_record rnd k w)"
| "fire rnd (NextDay k) w = Inr (run_day_finish k w)"
| "fire rnd (DayDone k) w = Inr w"

definition step :: "(real \<Rightarrow> real) \<Rightarrow> world \<Rightarrow> (error + world) option" where
  "step rnd w =
     (case queue w of
        [] \<Rightarrow> None
      | (t, p, e, ev) # rest \<Rightarrow> Some (fire rnd ev (w\<lparr>now := t, queue := rest\<rparr>)))"

fun env_run :: "(real \<Rightarrow> real) \<Rightarrow> nat \<Rightarrow> world \<Rightarrow> (error + world) option" where
  \<comment> \<open>\<^verbatim>\<open>env.run()\<close>: process events until the queue is empty; \<open>None\<close> when the
      fuel runs out first\<close>
  "env_run rnd fuel w =
     (case step rnd w of
        None \<Rightarrow> Some (Inr w)
      | Some (Inl e) \<Rightarrow> Some (Inl e)
      | Some (Inr w') \<Rightarrow> (case fuel of 0 \<Rightarrow> None | Suc n \<Rightarrow> env_run rnd n w'))"

declare env_run.simps [simp del]

definition start :: "simulation \<Rightarrow> gen \<Rightarrow> gen \<Rightarrow> world" where
  \<comment> \<open>a simulation on a fresh environment, in an interpreter whose module-level
      generators are \<open>py\<close> and \<open>np\<close>; \<open>rng\<close> is set by \<^verbatim>\<open>run_simulation\<close>\<close>
  "start sim py np =
     \<lparr>suppliers = suppliers sim, grocery = grocery sim, days = days sim,
      daily_balances = daily_balances sim,
      now = 0, queue = [], eid = 0, users = [], put_queue = [],
      procs = (\<lambda>k. \<lparr>remaining = 0, acc_revenue = 0, acc_cogs = 0, acc_delivery_cost = 0,
                     acc_products_sold = 0\<rparr>),
      rng = py, py_random = py, np_random = np, trace = []\<rparr>"

definition spawn_days :: "world \<Rightarrow> world" where
  "spawn_days w = fold (\<lambda>k. schedule (InitDay k) URGENT 0) [1..<nat (days w + 1)] w"

definition run_simulation ::
  "(int \<Rightarrow> gen) \<Rightarrow> (real \<Rightarrow> real) \<Rightarrow> simulation \<Rightarrow> int \<Rightarrow> gen \<Rightarrow> gen \<Rightarrow> nat \<Rightarrow>
     (error + world) option" where
  \<comment> \<open>\<open>Random\<close> is the constructor \<^verbatim>\<open>random.Random\<close>, \<open>rnd\<close> the rounding to two decimals\<close>
  "run_simulation Random rnd sim seed py np fuel =
     (let w0 = (start sim py np)\<lparr>rng := Random seed\<rparr>
      in (case env_run rnd fuel (spawn_days w0) of
            None \<Rightarrow> None
          | Some (Inl e) \<Rightarrow> Some (Inl e)
          | Some (Inr w) \<Rightarrow>
              Some (Inr (w\<lparr>daily_balances := daily_balances w @ [total_entry rnd (daily_balances w)]\<rparr>))))"

definition ledger :: "(error + world) option \<Rightarrow> (error + ledger_entry list) option" where
  "ledger r = map_option (map_sum id daily_balances) r"

section \<open>Properties as predicates, and concrete inputs\<close>

definition price_at_least :: "grocery \<Rightarrow> string \<Rightarrow> real \<Rightarrow> bool" where
  "price_at_least g p b = (case map_of (prices g) p of None \<Rightarrow> False | Some y \<Rightarrow> b \<le> y)"

definition floor_holds_for_known_costs :: "grocery \<Rightarrow> bool" where
  \<comment> \<open>every product with a known cost has a price of at least cost times 1.05\<close>
  "floor_holds_for_known_costs g =
     list_all (\<lambda>pc. price_at_least g (fst pc) (snd pc * (105 / 100))) (costs g)"

definition stock_of :: "grocery \<Rightarrow> string \<Rightarrow> int" where
  \<comment> \<open>the value of \<^verbatim>\<open>stock[p]\<close>, a \<^verbatim>\<open>defaultdict(int)\<close>\<close>
  "stock_of g p = dict_get (stock g) p 0"

definition sales_of :: "grocery \<Rightarrow> string \<Rightarrow> int" where
  "sales_of g p = dict_get (sales_count g) p 0"

definition demand_weight :: "grocery \<Rightarrow> string \<Rightarrow> real" where
  \<comment> \<open>\<^verbatim>\<open>self.demand_weights.get(p, 0.01)\<close>\<close>
  "demand_weight g p = dict_get (demand_weights g) p (1 / 100)"

text \<open>The four operations of the store, with their arguments, and a run of them.\<close>

datatype store_op =
    AddStock supplier int gen
  | ApplyDiscounts
  | SellOneProduct gen
  | ResetSalesCounters

fun run_op :: "store_op \<Rightarrow> grocery \<Rightarrow> grocery" where
  "run_op (AddStock supp quantity rnd) g = fst (add_stock g supp quantity rnd)"
| "run_op ApplyDiscounts g = apply_discounts g"
| "run_op (SellOneProduct np) g =
     (case sell_one_product g np of Inl e \<Rightarrow> g | Inr (sold, g', np') \<Rightarrow> g')"
| "run_op ResetSalesCounters g = reset_sales_counters g"

definition stock_ok :: "grocery \<Rightarrow> bool" where
  \<comment> \<open>the keys of the stock dict are distinct and no entry is negative\<close>
  "stock_ok g = (distinct (dict_keys (stock g)) \<and> list_all (\<lambda>pq. 0 \<le> snd pq) (stock g))"




definition flat_discount :: "int \<Rightarrow> int \<Rightarrow> real" where
  \<comment> \<open>a controller that answers 10 percent to every query\<close>
  "flat_discount s v = 10"

definition fruit_tape :: gen where
  \<comment> \<open>first word 2 (index 2 of a five-element list), then words that read as the unit draw 1/4\<close>
  "fruit_tape = \<lparr>draws = (\<lambda>n. if n = 0 then 2 else 2 ^ 51), pos = 0\<rparr>"

definition fruit_supplier :: supplier where
  "fruit_supplier = fst (add_products (Supplier 0) (Some 1) fruit_tape)"

definition cheap_fruit_store :: grocery where
  \<comment> \<open>the sale price of fruits is set to 1 before the first delivery, whose unit cost is 2\<close>
  "cheap_fruit_store =
     fst (add_stock (set_sale_price (Grocery flat_discount 5) ''fruits'' 1) fruit_supplier 1 fruit_tape)"

definition sold_out_store :: grocery where
  \<comment> \<open>the single unit of \<open>cheap_fruit_store\<close> has been sold\<close>
  "sold_out_store =
     (case sell_one_product cheap_fruit_store fruit_tape of
        Inr (sold, g, np) \<Rightarrow> g
      | Inl e \<Rightarrow> cheap_fruit_store)"

definition ab_store :: grocery where
  \<comment> \<open>demand weights A: 1.0 and B: 0.0, both products in stock\<close>
  "ab_store = (Grocery flat_discount 1)
     \<lparr>stock := [(''A'', 3), (''B'', 3)], demand_weights := [(''A'', 1), (''B'', 0)]\<rparr>"

definition toy_Random :: "int \<Rightarrow> gen" where
  \<comment> \<open>a stand-in for \<^verbatim>\<open>random.Random(seed)\<close>: first word 0, then a word fixed by the seed\<close>
  "toy_Random seed = \<lparr>draws = (\<lambda>n. if n = 0 then 0 else \<bar>seed\<bar> * 2 ^ 47), pos = 0\<rparr>"

definition tape :: "int \<Rightarrow> gen" where
  \<comment> \<open>a generator that produces the same word forever\<close>
  "tape k = \<lparr>draws = (\<lambda>n. k), pos = 0\<rparr>"

definition sim1 :: "int \<Rightarrow> simulation" where
  \<comment> \<open>one fresh supplier, a fresh store with five cashiers, \<open>n\<close> days\<close>
  "sim1 n = \<lparr>suppliers = [Supplier 0], grocery = Grocery flat_discount 5, days = n,
              daily_balances = []\<rparr>"

section \<open>Basic facts\<close>

lemma map_of_dict_set: "map_of (dict_set k v d) = (map_of d)(k \<mapsto> v)"
  by (induction d) (auto simp: fun_eq_iff)

lemma dict_get_dict_set:
  "dict_get (dict_set k v d) k' dflt = (if k' = k then v else dict_get d k' dflt)"
  by (simp add: dict_get_def map_of_dict_set)

lemma dict_set_keys:
  "map fst (dict_set k v d) = (if k \<in> set (map fst d) then map fst d else map fst d @ [k])"
  by (induction d) auto

lemma dict_set_distinct: "distinct (dict_keys d) \<Longrightarrow> distinct (dict_keys (dict_set k v d))"
  by (simp add: dict_keys_def dict_set_keys)

lemma dict_set_subset: "set (dict_set k v d) \<subseteq> insert (k, v) (set d)"
  by (induction d) auto

lemma dict_get_member:
  "distinct (dict_keys d) \<Longrightarrow> (k, v) \<in> set d \<Longrightarrow> dict_get d k dflt = v"
  by (simp add: dict_get_def dict_keys_def)

lemmas gen_defs = getrand_def random_unit_def uniform_def randbelow_def randint_def choice_def

lemma fruit_supplier_eval:
  "fruit_supplier = \<lparr>sup_id = 0, sup_products = [''fruits''], sup_prices = [(''fruits'', 2)]\<rparr>"
  by (simp add: fruit_supplier_def add_products_def add_one_product_def maybe_update_cost_def
      Supplier_def gen_defs fruit_tape_def product_types_def dict_get_def dict_keys_def Let_def)

lemma cheap_fruit_store_eval:
  "cheap_fruit_store =
     \<lparr>stock = [(''fruits'', 1)], prices = [(''fruits'', 1)], costs = [(''fruits'', 2)],
      sales_count = [], num_cashiers = 5, discount_sim = flat_discount,
      demand_weights = [(''proteins'', 30 / 100), (''carbohydrates'', 25 / 100),
        (''fruits'', 20 / 100), (''vegetables'', 15 / 100), (''sweets'', 10 / 100)]\<rparr>"
  by (simp add: cheap_fruit_store_def fruit_supplier_eval add_stock_def add_stock_unit_def
      supply_products_def set_sale_price_def Grocery_def get_price_def dict_get_def
      dict_keys_def Let_def)

lemma sold_out_store_eval:
  "sold_out_store =
     \<lparr>stock = [(''fruits'', 0)], prices = [(''fruits'', 1)], costs = [(''fruits'', 2)],
      sales_count = [(''fruits'', 1)], num_cashiers = 5, discount_sim = flat_discount,
      demand_weights = [(''proteins'', 30 / 100), (''carbohydrates'', 25 / 100),
        (''fruits'', 20 / 100), (''vegetables'', 15 / 100), (''sweets'', 10 / 100)]\<rparr>"
  by (simp add: sold_out_store_def cheap_fruit_store_eval sell_one_product_def
      available_products_def sale_weights_def np_choice_def gen_defs fruit_tape_def
      dict_get_def Let_def)

section \<open>Supplier: production and supply\<close>

lemma add_one_product_length:
  "length (sup_products (fst (add_one_product sg))) = Suc (length (sup_products (fst sg)))"
  by (simp add: add_one_product_def maybe_update_cost_def Let_def split: prod.splits)

lemma add_many_products_length:
  "length (sup_products (fst (add_many_products n sg))) = length (sup_products (fst sg)) + n"
  by (induction n arbitrary: sg) (simp_all add: add_one_product_length)

lemma add_many_products_numeral:
  "add_many_products (numeral k) sg = add_many_products (pred_numeral k) (add_one_product sg)"
  by (simp add: numeral_eq_Suc)

lemma pop_many_take:
  "n \<le> length ps \<Longrightarrow> pop_many n ps = (take n (rev ps), take (length ps - n) ps)"
proof (induction n arbitrary: ps)
  case 0
  then show ?case by simp
next
  case (Suc n)
  then have "ps \<noteq> []" by auto
  then obtain qs x where "ps = qs @ [x]" by (metis append_butlast_last_id)
  with Suc show ?case by simp
qed

text \<open>
  Claim C5. A fresh supplier that produces \<open>Q\<close> units (\<open>Q\<close> a quantity, so not
  negative) holds exactly \<open>Q\<close> units; asked for \<open>Q\<close> it returns all of them, the
  most recently added first, and its inventory is empty; asked for \<open>Q + 1\<close> instead
  it meets the insufficient-inventory error, returns the empty list and keeps its
  inventory as it was.
\<close>

theorem supplier_round_trip:
  assumes "0 \<le> Q" and "add_products (Supplier i) (Some Q) rnd = (s, rnd')"
  shows "int (length (sup_products s)) = Q
       \<and> supply_products s Q = (None, rev (sup_products s), s\<lparr>sup_products := []\<rparr>)
       \<and> supply_products s (Q + 1) = (Some ValueError, [], s)"
proof -
  have "s = fst (add_many_products (nat Q) (Supplier i, rnd))"
    using assms(2) by (simp add: add_products_def)
  then have "length (sup_products s) = nat Q"
    by (simp add: add_many_products_length Supplier_def)
  with assms(1) show ?thesis
    by (simp add: supply_products_def pop_many_take)
qed

theorem supplier_round_trip_witness:
  "(0::int) \<le> 1
   \<and> add_products (Supplier 0) (Some 1) fruit_tape = (fruit_supplier, fruit_tape\<lparr>pos := 2\<rparr>)
   \<and> int (length (sup_products fruit_supplier)) = 1
   \<and> supply_products fruit_supplier 1 = (None, [''fruits''], fruit_supplier\<lparr>sup_products := []\<rparr>)
   \<and> supply_products fruit_supplier (1 + 1) = (Some ValueError, [], fruit_supplier)"
proof -
  have made: "add_products (Supplier 0) (Some 1) fruit_tape = (fruit_supplier, fruit_tape\<lparr>pos := 2\<rparr>)"
    by (simp add: fruit_supplier_eval add_products_def add_one_product_def maybe_update_cost_def
        Supplier_def gen_defs fruit_tape_def product_types_def dict_get_def dict_keys_def Let_def)
  have "rev (sup_products fruit_supplier) = [''fruits'']"
    by (simp add: fruit_supplier_eval)
  with supplier_round_trip [OF _ made] made show ?thesis by simp
qed

section \<open>Grocery: discounts\<close>

lemma discount_product_frame:
  "stock (discount_product i g) = stock g \<and> costs (discount_product i g) = costs g
   \<and> sales_count (discount_product i g) = sales_count g
   \<and> demand_weights (discount_product i g) = demand_weights g
   \<and> discount_sim (discount_product i g) = discount_sim g
   \<and> num_cashiers (discount_product i g) = num_cashiers g"
  by (simp add: discount_product_def Let_def split: prod.splits option.splits)

lemma fold_discount_frame:
  "stock (fold discount_product items g) = stock g
   \<and> costs (fold discount_product items g) = costs g
   \<and> sales_count (fold discount_product items g) = sales_count g
   \<and> demand_weights (fold discount_product items g) = demand_weights g
   \<and> discount_sim (fold discount_product items g) = discount_sim g
   \<and> num_cashiers (fold discount_product items g) = num_cashiers g"
  by (induction items arbitrary: g) (simp_all add: discount_product_frame)

text \<open>
  Claim C10. \<^verbatim>\<open>apply_discounts\<close> changes the price map only: the stock map, the
  cost map, the sales counters and the demand-weight table after the call are the
  ones before the call, for every starting state.
\<close>

theorem apply_discounts_frame:
  "stock (apply_discounts g) = stock g \<and> costs (apply_discounts g) = costs g
   \<and> sales_count (apply_discounts g) = sales_count g
   \<and> demand_weights (apply_discounts g) = demand_weights g"
  by (simp add: apply_discounts_def fold_discount_frame)

lemma price_floor_frame: "price_floor (discount_product i g) p = price_floor g p"
  by (simp add: price_floor_def discount_product_frame)

lemma discount_product_keeps:
  "price_at_least g p (price_floor g p)
   \<Longrightarrow> price_at_least (discount_product i g) p (price_floor g p)"
  by (auto simp: price_at_least_def discount_product_def Let_def map_of_dict_set
           split: prod.splits option.splits)

lemma discount_product_clamps:
  "0 < q \<Longrightarrow> map_of (prices g) p \<noteq> None
   \<Longrightarrow> price_at_least (discount_product (p, q) g) p (price_floor g p)"
  by (auto simp: price_at_least_def discount_product_def Let_def map_of_dict_set
           split: prod.splits option.splits)

lemma discount_product_priced:
  "map_of (prices g) p \<noteq> None \<Longrightarrow> map_of (prices (discount_product i g)) p \<noteq> None"
  by (auto simp: discount_product_def Let_def map_of_dict_set split: prod.splits option.splits)

lemma fold_discount_keeps:
  "price_at_least g p (price_floor g p)
   \<Longrightarrow> price_at_least (fold discount_product items g) p (price_floor g p)"
proof (induction items arbitrary: g)
  case Nil
  then show ?case by simp
next
  case (Cons i items)
  have "price_at_least (discount_product i g) p (price_floor (discount_product i g) p)"
    using Cons.prems by (simp add: price_floor_frame discount_product_keeps)
  from Cons.IH [OF this] show ?case by (simp add: price_floor_frame)
qed

lemma fold_discount_clamps:
  "(p, q) \<in> set items \<Longrightarrow> 0 < q \<Longrightarrow> map_of (prices g) p \<noteq> None
   \<Longrightarrow> price_at_least (fold discount_product items g) p (price_floor g p)"
proof (induction items arbitrary: g)
  case Nil
  then show ?case by simp
next
  case (Cons i items)
  show ?case
  proof (cases "i = (p, q)")
    case True
    have "price_at_least (discount_product i g) p (price_floor (discount_product i g) p)"
      using True Cons.prems by (simp add: price_floor_frame discount_product_clamps)
    from fold_discount_keeps [OF this] show ?thesis by (simp add: price_floor_frame)
  next
    case False
    with Cons.prems have "(p, q) \<in> set items" by simp
    from Cons.IH [OF this Cons.prems(2) discount_product_priced [OF Cons.prems(3)]]
    show ?thesis by (simp add: price_floor_frame)
  qed
qed

lemma discount_product_skips:
  "q \<le> 0 \<Longrightarrow> discount_product (p, q) g = g"
  by (simp add: discount_product_def)

lemma discount_product_other:
  "p' \<noteq> p \<Longrightarrow> map_of (prices (discount_product (p', q) g)) p = map_of (prices g) p"
  by (simp add: discount_product_def Let_def map_of_dict_set split: option.splits)

lemma discount_product_unpriced:
  "map_of (prices g) p = None \<Longrightarrow> map_of (prices (discount_product i g)) p = None"
  by (cases i) (auto simp: discount_product_def Let_def map_of_dict_set split: option.splits)

lemma fold_discount_unpriced:
  "map_of (prices g) p = None \<Longrightarrow> map_of (prices (fold discount_product items g)) p = None"
  by (induction items arbitrary: g) (simp_all add: discount_product_unpriced)

lemma fold_discount_no_stock:
  "\<forall>q. (p, q) \<in> set items \<longrightarrow> q \<le> 0
   \<Longrightarrow> map_of (prices (fold discount_product items g)) p = map_of (prices g) p"
proof (induction items arbitrary: g)
  case Nil
  then show ?case by simp
next
  case (Cons i items)
  obtain p' q' where i: "i = (p', q')" by (cases i)
  have step: "map_of (prices (discount_product i g)) p = map_of (prices g) p"
  proof (cases "p' = p")
    case True
    with Cons.prems i have "q' \<le> 0" by simp
    then show ?thesis by (simp add: i discount_product_skips)
  next
    case False
    then show ?thesis by (simp add: i discount_product_other)
  qed
  from Cons.prems have "\<forall>q. (p, q) \<in> set items \<longrightarrow> q \<le> 0" by simp
  from Cons.IH [OF this, of "discount_product i g"] step show ?case by simp
qed

text \<open>
  Claim C3, as amended. \<^verbatim>\<open>apply_discounts\<close> skips a product whose stock is not
  positive or that has no price. For every product it does process (positive stock
  and an existing price), the price after the call is at least the floor: cost times
  1.05 when the cost is known, and 0 when it is not. The price of a product with no
  positive stock or no price is left untouched: it is after the call what it was
  before, and a product without a price still has none.
\<close>

theorem apply_discounts_floor:
  "((\<exists>q. (p, q) \<in> set (stock g) \<and> 0 < q) \<and> p \<in> set (dict_keys (prices g)) \<longrightarrow>
      (\<exists>y. map_of (prices (apply_discounts g)) p = Some y
         \<and> (case map_of (costs (apply_discounts g)) p of
               Some c \<Rightarrow> c * (105 / 100) \<le> y
             | None \<Rightarrow> 0 \<le> y)))
   \<and> ((\<forall>q. (p, q) \<in> set (stock g) \<longrightarrow> q \<le> 0) \<or> p \<notin> set (dict_keys (prices g)) \<longrightarrow>
        map_of (prices (apply_discounts g)) p = map_of (prices g) p)"
proof (intro conjI impI)
  assume "(\<exists>q. (p, q) \<in> set (stock g) \<and> 0 < q) \<and> p \<in> set (dict_keys (prices g))"
  then obtain q where q: "(p, q) \<in> set (stock g)" "0 < q"
    and "p \<in> set (dict_keys (prices g))" by blast
  then have "map_of (prices g) p \<noteq> None"
    by (simp add: dict_keys_def map_of_eq_None_iff)
  from fold_discount_clamps [OF q this]
  have "price_at_least (apply_discounts g) p (price_floor g p)"
    by (simp add: apply_discounts_def)
  then show "\<exists>y. map_of (prices (apply_discounts g)) p = Some y
         \<and> (case map_of (costs (apply_discounts g)) p of
               Some c \<Rightarrow> c * (105 / 100) \<le> y
             | None \<Rightarrow> 0 \<le> y)"
    by (auto simp: price_at_least_def price_floor_def dict_get_def apply_discounts_frame
             split: option.splits)
next
  assume "(\<forall>q. (p, q) \<in> set (stock g) \<longrightarrow> q \<le> 0) \<or> p \<notin> set (dict_keys (prices g))"
  then show "map_of (prices (apply_discounts g)) p = map_of (prices g) p"
  proof
    assume "\<forall>q. (p, q) \<in> set (stock g) \<longrightarrow> q \<le> 0"
    then show ?thesis by (simp add: apply_discounts_def fold_discount_no_stock)
  next
    assume "p \<notin> set (dict_keys (prices g))"
    then have "map_of (prices g) p = None"
      by (simp add: dict_keys_def map_of_eq_None_iff)
    then show ?thesis by (simp add: apply_discounts_def fold_discount_unpriced)
  qed
qed

theorem apply_discounts_floor_witness:
  "(''fruits'', 1) \<in> set (stock cheap_fruit_store)
   \<and> ''fruits'' \<in> set (dict_keys (prices cheap_fruit_store))
   \<and> map_of (costs (apply_discounts cheap_fruit_store)) ''fruits'' = Some 2
   \<and> map_of (prices (apply_discounts cheap_fruit_store)) ''fruits'' = Some (21 / 10)
   \<and> (\<exists>y. map_of (prices (apply_discounts cheap_fruit_store)) ''fruits'' = Some y
           \<and> (case map_of (costs (apply_discounts cheap_fruit_store)) ''fruits'' of
                 Some c \<Rightarrow> c * (105 / 100) \<le> y
               | None \<Rightarrow> 0 \<le> y))
   \<and> stock sold_out_store = [(''fruits'', 0)]
   \<and> map_of (prices sold_out_store) ''fruits'' = Some 1
   \<and> map_of (prices (apply_discounts sold_out_store)) ''fruits'' = Some 1
   \<and> map_of (prices cheap_fruit_store) ''sweets'' = None
   \<and> map_of (prices (apply_discounts cheap_fruit_store)) ''sweets'' = None"
proof -
  have a: "(''fruits'', 1) \<in> set (stock cheap_fruit_store)"
    by (simp add: cheap_fruit_store_eval)
  have b: "''fruits'' \<in> set (dict_keys (prices cheap_fruit_store))"
    by (simp add: cheap_fruit_store_eval dict_keys_def)
  have c: "map_of (costs (apply_discounts cheap_fruit_store)) ''fruits'' = Some 2"
    by (simp add: apply_discounts_frame cheap_fruit_store_eval)
  have d: "map_of (prices (apply_discounts cheap_fruit_store)) ''fruits'' = Some (21 / 10)"
    by (simp add: apply_discounts_def discount_product_def compute_discount_def price_floor_def
        flat_discount_def dict_get_def cheap_fruit_store_eval Let_def)
  have e: "stock sold_out_store = [(''fruits'', 0)]"
    and f: "map_of (prices sold_out_store) ''fruits'' = Some 1"
    by (simp_all add: sold_out_store_eval)
  have g: "map_of (prices cheap_fruit_store) ''sweets'' = None"
    and h: "''sweets'' \<notin> set (dict_keys (prices cheap_fruit_store))"
    by (simp_all add: cheap_fruit_store_eval dict_keys_def)
  have i: "\<forall>q. (''fruits'', q) \<in> set (stock sold_out_store) \<longrightarrow> q \<le> 0"
    by (simp add: e)
  from apply_discounts_floor [of "''fruits''" cheap_fruit_store] a b
  have "\<exists>y. map_of (prices (apply_discounts cheap_fruit_store)) ''fruits'' = Some y
           \<and> (case map_of (costs (apply_discounts cheap_fruit_store)) ''fruits'' of
                 Some c \<Rightarrow> c * (105 / 100) \<le> y
               | None \<Rightarrow> 0 \<le> y)"
    by fastforce
  moreover from apply_discounts_floor [of "''fruits''" sold_out_store] i f
  have "map_of (prices (apply_discounts sold_out_store)) ''fruits'' = Some 1"
    by simp
  moreover from apply_discounts_floor [of "''sweets''" cheap_fruit_store] g h
  have "map_of (prices (apply_discounts cheap_fruit_store)) ''sweets'' = None"
    by simp
  ultimately show ?thesis using a b c d e f g by (intro conjI)
qed

text \<open>
  The claim as stated (every product with a known cost, after any call) fails for a
  product that is out of stock: the store \<open>sold_out_store\<close> is reached through
  \<^verbatim>\<open>set_sale_price\<close>, \<^verbatim>\<open>add_stock\<close> and \<^verbatim>\<open>sell_one_product\<close>; its fruits cost 2
  and are priced 1, and \<^verbatim>\<open>apply_discounts\<close> leaves that price alone.
\<close>

theorem apply_discounts_floor_counterexample:
  "\<not> floor_holds_for_known_costs (apply_discounts sold_out_store)"
  by (simp add: floor_holds_for_known_costs_def price_at_least_def apply_discounts_def
      discount_product_def sold_out_store_eval)

lemma discounted_floor_le:
  fixes f d :: real
  assumes "0 \<le> f" and "0 \<le> d"
  shows "f * (1 - d / 100) \<le> f"
proof -
  have "0 \<le> f * (d / 100)" using assms by simp
  then show ?thesis by (simp add: algebra_simps)
qed

lemma discount_product_at_floor:
  assumes "\<forall>s v. 0 \<le> discount_sim g s v" and "0 \<le> price_floor g p"
    and "map_of (prices g) p = Some (price_floor g p)"
  shows "map_of (prices (discount_product i g)) p = Some (price_floor g p)"
proof -
  have "0 \<le> compute_discount g s v" for s v
    using assms(1) by (simp add: compute_discount_def Let_def)
  from discounted_floor_le [OF assms(2) this]
  have "max (price_floor g p * (1 - compute_discount g s v / 100)) (price_floor g p)
        = price_floor g p" for s v
    by (simp add: max_def)
  with assms(3) show ?thesis
    by (auto simp: discount_product_def Let_def map_of_dict_set split: prod.splits option.splits)
qed

lemma fold_discount_at_floor:
  assumes "\<forall>s v. 0 \<le> discount_sim g s v" and "0 \<le> price_floor g p"
    and "map_of (prices g) p = Some (price_floor g p)"
  shows "map_of (prices (fold discount_product items g)) p = Some (price_floor g p)"
  using assms
proof (induction items arbitrary: g)
  case Nil
  then show ?case by simp
next
  case (Cons i items)
  have "map_of (prices (fold discount_product items (discount_product i g))) p
        = Some (price_floor (discount_product i g) p)"
    using Cons.prems
    by (intro Cons.IH) (simp_all add: discount_product_frame price_floor_frame discount_product_at_floor)
  then show ?case by (simp add: price_floor_frame)
qed

text \<open>
  Claim C8. Two calls of \<^verbatim>\<open>apply_discounts\<close> in a row, with nothing in between.
  The controller answers percentages that are not negative and unit costs are not
  negative. If the first call left the price of a product at its floor (cost times
  1.05), the second call leaves that price as it is; and a price that is at least
  the floor after the first call is at least the floor after the second.
\<close>

theorem apply_discounts_twice:
  assumes "\<forall>s v. 0 \<le> discount_sim g s v" and "0 \<le> dict_get (costs g) p 0"
  shows "(map_of (prices (apply_discounts g)) p = Some (price_floor g p) \<longrightarrow>
            map_of (prices (apply_discounts (apply_discounts g))) p
              = map_of (prices (apply_discounts g)) p)
       \<and> (price_at_least (apply_discounts g) p (price_floor g p) \<longrightarrow>
            price_at_least (apply_discounts (apply_discounts g)) p (price_floor g p))"
proof -
  let ?g1 = "apply_discounts g"
  have fl: "price_floor ?g1 p = price_floor g p"
    by (simp add: price_floor_def apply_discounts_frame)
  have sim: "\<forall>s v. 0 \<le> discount_sim ?g1 s v"
    using assms(1) by (simp add: apply_discounts_def fold_discount_frame)
  have nn: "0 \<le> price_floor ?g1 p"
    using assms(2) unfolding fl by (simp add: price_floor_def)
  have "map_of (prices (apply_discounts ?g1)) p = Some (price_floor ?g1 p)"
    if "map_of (prices ?g1) p = Some (price_floor g p)"
    unfolding apply_discounts_def [of ?g1]
    using that by (intro fold_discount_at_floor [OF sim nn]) (simp add: fl)
  moreover have "price_at_least (apply_discounts ?g1) p (price_floor ?g1 p)"
    if "price_at_least ?g1 p (price_floor g p)"
    unfolding apply_discounts_def [of ?g1]
    using that by (intro fold_discount_keeps) (simp add: fl)
  ultimately show ?thesis by (simp add: fl)
qed



theorem apply_discounts_twice_witness:
  "(\<forall>s v. 0 \<le> discount_sim cheap_fruit_store s v)
   \<and> 0 \<le> dict_get (costs cheap_fruit_store) ''fruits'' 0
   \<and> price_floor cheap_fruit_store ''fruits'' = 21 / 10
   \<and> map_of (prices cheap_fruit_store) ''fruits'' = Some 1
   \<and> map_of (prices (apply_discounts cheap_fruit_store)) ''fruits'' = Some (21 / 10)
   \<and> map_of (prices (apply_discounts (apply_discounts cheap_fruit_store))) ''fruits''
       = Some (21 / 10)
   \<and> price_at_least (apply_discounts (apply_discounts cheap_fruit_store)) ''fruits'' (21 / 10)"
proof -
  have a: "\<forall>s v. 0 \<le> discount_sim cheap_fruit_store s v"
    by (simp add: cheap_fruit_store_eval flat_discount_def)
  have b: "0 \<le> dict_get (costs cheap_fruit_store) ''fruits'' 0"
    by (simp add: cheap_fruit_store_eval dict_get_def)
  have c: "price_floor cheap_fruit_store ''fruits'' = 21 / 10"
    by (simp add: cheap_fruit_store_eval price_floor_def dict_get_def)
  have d: "map_of (prices (apply_discounts cheap_fruit_store)) ''fruits'' = Some (21 / 10)"
    by (simp add: apply_discounts_def discount_product_def compute_discount_def price_floor_def
        flat_discount_def dict_get_def cheap_fruit_store_eval Let_def)
  have e: "map_of (prices cheap_fruit_store) ''fruits'' = Some 1"
    by (simp add: cheap_fruit_store_eval)
  have f: "price_at_least (apply_discounts cheap_fruit_store) ''fruits'' (21 / 10)"
    by (simp add: price_at_least_def d)
  from apply_discounts_twice [OF a b] a b c d e f show ?thesis by simp
qed

section \<open>Grocery: selling one product\<close>

lemma random_unit_range: "random_unit g = (u, g') \<Longrightarrow> 0 \<le> u \<and> u < 1"
proof -
  assume "random_unit g = (u, g')"
  define m where "m = draws g (pos g) mod 2 ^ 53"
  have u: "u = real_of_int m / 2 ^ 53"
    using \<open>random_unit g = (u, g')\<close> by (auto simp: random_unit_def getrand_def m_def)
  have "0 \<le> m" and "m < 2 ^ 53" by (simp_all add: m_def)
  then have "0 \<le> real_of_int m" and "real_of_int m < 2 ^ 53"
    by (simp, metis of_int_less_iff of_int_numeral of_int_power)
  then show ?thesis unfolding u by simp
qed

lemma length_cumsum: "length (cumsum acc xs) = length xs"
  by (induction xs arbitrary: acc) simp_all

lemma nth_cumsum: "i < length xs \<Longrightarrow> cumsum acc xs ! i = acc + sum_list (take (Suc i) xs)"
proof (induction xs arbitrary: acc i)
  case Nil
  then show ?case by simp
next
  case (Cons x xs)
  then show ?case by (cases i) simp_all
qed

lemma cumsum_Nil_iff: "cumsum acc xs = [] \<longleftrightarrow> xs = []"
  by (cases xs) simp_all

lemma last_cumsum: "xs \<noteq> [] \<Longrightarrow> last (cumsum acc xs) = acc + sum_list xs"
  by (induction xs arbitrary: acc) (simp_all add: cumsum_Nil_iff)

lemma searchsorted_right_le: "searchsorted_right cs u \<le> length cs"
  by (induction cs) simp_all

lemma searchsorted_right_full:
  "searchsorted_right cs u = length cs \<Longrightarrow> c \<in> set cs \<Longrightarrow> c \<le> u"
proof (induction cs)
  case Nil
  then show ?case by simp
next
  case (Cons a cs)
  then show ?case
    using searchsorted_right_le [of cs u] by (auto split: if_splits)
qed

lemma searchsorted_right_stop:
  "searchsorted_right cs u < length cs \<Longrightarrow> u < cs ! searchsorted_right cs u"
  by (induction cs) (auto split: if_splits)

lemma searchsorted_right_before:
  "j < searchsorted_right cs u \<Longrightarrow> cs ! j \<le> u"
proof (induction cs arbitrary: j)
  case Nil
  then show ?case by simp
next
  case (Cons a cs)
  then show ?case by (cases j) (auto split: if_splits)
qed

lemma np_choice_result:
  assumes "np_choice a p np = Inr (x, np')" and "length p = length a"
  shows "\<exists>i<length a. a ! i = x \<and> p ! i \<noteq> 0"
proof -
  obtain u where ru: "random_unit np = (u, np')"
    using assms(1) by (auto simp: np_choice_def Let_def split: if_splits prod.splits)
  define cdf where "cdf = cumsum 0 p"
  define cdf' where "cdf' = map (\<lambda>c. c / last cdf) cdf"
  define i where "i = searchsorted_right cdf' u"
  have i: "i < length a" and x: "a ! i = x"
    using assms(1) ru by (auto simp: np_choice_def Let_def cdf_def cdf'_def i_def split: if_splits)
  have len: "length cdf' = length a"
    by (simp add: cdf'_def cdf_def length_cumsum assms(2))
  have above: "u < cdf' ! i"
    using searchsorted_right_stop [of cdf' u] i len by (simp add: i_def)
  have u0: "0 \<le> u" using random_unit_range [OF ru] by simp
  have "p ! i \<noteq> 0"
  proof
    assume zero: "p ! i = 0"
    have ci: "cdf ! i = sum_list (take i p)"
      using i assms(2) zero by (simp add: cdf_def nth_cumsum take_Suc_conv_app_nth)
    show False
    proof (cases i)
      case 0
      with ci have "cdf' ! i = 0" using i len by (simp add: cdf'_def)
      with above u0 show False by simp
    next
      case (Suc j)
      then have "cdf ! j = sum_list (take i p)"
        using i assms(2) by (simp add: cdf_def nth_cumsum)
      with ci have "cdf' ! j = cdf' ! i" using i len Suc by (simp add: cdf'_def)
      moreover have "cdf' ! j \<le> u"
        using searchsorted_right_before [of j cdf' u] Suc by (simp add: i_def)
      ultimately show False using above by simp
    qed
  qed
  with i x show ?thesis by blast
qed

lemma np_choice_returns:
  assumes "a \<noteq> []" and "length p = length a" and "\<forall>x\<in>set p. 0 \<le> x" and "sum_list p = 1"
  shows "\<exists>i<length a. np_choice a p np = Inr (a ! i, snd (random_unit np))"
proof -
  obtain u np' where ru: "random_unit np = (u, np')" by (cases "random_unit np")
  define cdf where "cdf = cumsum 0 p"
  define cdf' where "cdf' = map (\<lambda>c. c / last cdf) cdf"
  define i where "i = searchsorted_right cdf' u"
  have pne: "p \<noteq> []" using assms(1,2) by auto
  have len: "length cdf' = length a"
    by (simp add: cdf'_def cdf_def length_cumsum assms(2))
  have "last cdf = 1" using pne by (simp add: cdf_def last_cumsum assms(4))
  moreover have "cdf \<noteq> []" using pne by (simp add: cdf_def cumsum_Nil_iff)
  ultimately have "last cdf' = 1" by (simp add: cdf'_def last_map)
  moreover have "cdf' \<noteq> []" using len assms(1) by auto
  ultimately have one: "1 \<in> set cdf'" by (metis last_in_set)
  have "i \<noteq> length cdf'"
  proof
    assume "i = length cdf'"
    from searchsorted_right_full [OF this [unfolded i_def] one]
    show False using random_unit_range [OF ru] by simp
  qed
  then have "i < length a"
    using searchsorted_right_le [of cdf' u] len by (simp add: i_def)
  moreover have "\<not> list_ex (\<lambda>x. x < 0) p"
    using assms(3) by (auto simp: list_ex_iff)
  ultimately have "np_choice a p np = Inr (a ! i, snd (random_unit np))"
    using ru assms(4) by (simp add: np_choice_def Let_def cdf_def cdf'_def i_def)
  with \<open>i < length a\<close> show ?thesis by blast
qed


lemma length_sale_weights: "length (sale_weights g a) = length a"
  by (simp add: sale_weights_def Let_def)

lemma sum_list_scaled: "sum_list (map (\<lambda>w. w / c) ws) = sum_list ws / (c::real)"
  by (induction ws) (simp_all add: add_divide_distrib)

lemma sum_sale_weights: "a \<noteq> [] \<Longrightarrow> sum_list (sale_weights g a) = 1"
  by (simp add: sale_weights_def Let_def sum_list_scaled sum_list_replicate)

lemma sale_weights_nonneg:
  assumes "\<forall>p\<in>set a. 0 \<le> dict_get (demand_weights g) p (1 / 100)"
  shows "\<forall>x\<in>set (sale_weights g a). 0 \<le> x"
proof -
  have "0 \<le> sum_list (map (\<lambda>p. dict_get (demand_weights g) p (1 / 100)) a)"
    using assms by (intro sum_list_nonneg) auto
  with assms show ?thesis
    by (auto simp: sale_weights_def Let_def sum_list_replicate)
qed

lemma available_member:
  "p \<in> set (available_products g) \<longleftrightarrow> (\<exists>q. (p, q) \<in> set (stock g) \<and> 0 < q)"
  by (force simp: available_products_def)

lemma available_stock_of:
  "distinct (dict_keys (stock g)) \<Longrightarrow> p \<in> set (available_products g) \<longleftrightarrow> 0 < stock_of g p"
proof -
  assume d: "distinct (dict_keys (stock g))"
  show ?thesis
  proof
    assume "p \<in> set (available_products g)"
    then obtain q where "(p, q) \<in> set (stock g)" "0 < q" by (auto simp: available_member)
    with d show "0 < stock_of g p" by (simp add: stock_of_def dict_get_member)
  next
    assume "0 < stock_of g p"
    then obtain q where "map_of (stock g) p = Some q" "0 < q"
      by (auto simp: stock_of_def dict_get_def split: option.splits)
    then show "p \<in> set (available_products g)"
      by (auto simp: available_member dest: map_of_SomeD)
  qed
qed

lemma sell_none:
  "available_products g = [] \<Longrightarrow> sell_one_product g np = Inr (None, g, np)"
  by (simp add: sell_one_product_def)

lemma sell_some:
  assumes "available_products g \<noteq> []"
    and "\<forall>p\<in>set (available_products g). 0 \<le> dict_get (demand_weights g) p (1 / 100)"
  shows "\<exists>p\<in>set (available_products g). sell_one_product g np =
     Inr (Some p,
          g\<lparr>stock := dict_set p (dict_get (stock g) p 0 - 1) (stock g),
            sales_count := dict_set p (dict_get (sales_count g) p 0 + 1) (sales_count g)\<rparr>,
          snd (random_unit np))"
proof -
  let ?a = "available_products g"
  from np_choice_returns [OF assms(1) length_sale_weights sale_weights_nonneg [OF assms(2)]
      sum_sale_weights [OF assms(1)], of np]
  obtain i where "i < length ?a"
    and "np_choice ?a (sale_weights g ?a) np = Inr (?a ! i, snd (random_unit np))" by blast
  then show ?thesis
    using assms(1) by (intro bexI [of _ "?a ! i"]) (simp_all add: sell_one_product_def Let_def)
qed


text \<open>
  Claim C7. The stock dict has distinct keys (it is a Python dict) and no available
  product has a negative demand weight (the table holds probability weights).
  \<^verbatim>\<open>sell_one_product\<close> returns \<^verbatim>\<open>None\<close> exactly when no product has positive
  stock, and then the store and the generator are unchanged. Otherwise it returns a
  product that had positive stock; its stock is one lower and its sales count one
  higher; the stock and sales count of every other product, and the prices, costs
  and demand weights, are unchanged.
\<close>

theorem sell_one_product_correct:
  assumes "distinct (dict_keys (stock g))"
    and "\<forall>p\<in>set (available_products g). 0 \<le> demand_weight g p"
  shows "((\<exists>g' np'. sell_one_product g np = Inr (None, g', np')) \<longleftrightarrow> (\<forall>p. stock_of g p \<le> 0))
       \<and> ((\<forall>p. stock_of g p \<le> 0) \<longrightarrow> sell_one_product g np = Inr (None, g, np))
       \<and> (\<not> (\<forall>p. stock_of g p \<le> 0) \<longrightarrow>
            (\<exists>p g' np'. sell_one_product g np = Inr (Some p, g', np')
               \<and> 0 < stock_of g p
               \<and> stock_of g' p = stock_of g p - 1
               \<and> sales_of g' p = sales_of g p + 1
               \<and> (\<forall>q. q \<noteq> p \<longrightarrow> stock_of g' q = stock_of g q \<and> sales_of g' q = sales_of g q)
               \<and> prices g' = prices g \<and> costs g' = costs g
               \<and> demand_weights g' = demand_weights g))"
proof (cases "available_products g = []")
  case True
  then have "\<forall>p. stock_of g p \<le> 0"
    using available_stock_of [OF assms(1)] by (metis empty_iff empty_set not_le)
  with True show ?thesis by (simp add: sell_none)
next
  case False
  then obtain p0 where "p0 \<in> set (available_products g)" by (cases "available_products g") auto
  then have pos: "\<not> (\<forall>p. stock_of g p \<le> 0)"
    using available_stock_of [OF assms(1)] by (metis not_le)
  from sell_some [OF False assms(2) [unfolded demand_weight_def], of np]
  obtain p where p: "p \<in> set (available_products g)"
    and sell: "sell_one_product g np =
       Inr (Some p,
            g\<lparr>stock := dict_set p (dict_get (stock g) p 0 - 1) (stock g),
              sales_count := dict_set p (dict_get (sales_count g) p 0 + 1) (sales_count g)\<rparr>,
            snd (random_unit np))" by blast
  from p have "0 < stock_of g p" using available_stock_of [OF assms(1)] by simp
  with sell pos show ?thesis
    by (simp add: stock_of_def sales_of_def dict_get_dict_set)
qed


theorem sell_one_product_correct_witness:
  "distinct (dict_keys (stock cheap_fruit_store))
   \<and> list_all (\<lambda>p. 0 \<le> demand_weight cheap_fruit_store p) (available_products cheap_fruit_store)
   \<and> stock_of cheap_fruit_store ''fruits'' = 1
   \<and> sell_one_product cheap_fruit_store fruit_tape
       = Inr (Some ''fruits'', sold_out_store, fruit_tape\<lparr>pos := 1\<rparr>)
   \<and> stock_of sold_out_store ''fruits'' = 0
   \<and> sales_of sold_out_store ''fruits'' = 1
   \<and> (\<forall>p. stock_of sold_out_store p \<le> 0)
   \<and> sell_one_product sold_out_store fruit_tape = Inr (None, sold_out_store, fruit_tape)"
proof -
  have a: "distinct (dict_keys (stock sold_out_store))"
    by (simp add: sold_out_store_eval dict_keys_def)
  have b: "\<forall>p\<in>set (available_products sold_out_store). 0 \<le> demand_weight sold_out_store p"
    by (simp add: sold_out_store_eval available_products_def)
  have c: "\<forall>p. stock_of sold_out_store p \<le> 0"
    by (simp add: sold_out_store_eval stock_of_def dict_get_def)
  have d: "sell_one_product cheap_fruit_store fruit_tape
       = Inr (Some ''fruits'', sold_out_store, fruit_tape\<lparr>pos := 1\<rparr>)"
    by (simp add: sold_out_store_eval cheap_fruit_store_eval sell_one_product_def
      available_products_def sale_weights_def np_choice_def gen_defs fruit_tape_def
      dict_get_def Let_def)
  have e: "list_all (\<lambda>p. 0 \<le> demand_weight cheap_fruit_store p)
             (available_products cheap_fruit_store)"
    by (simp add: cheap_fruit_store_eval available_products_def demand_weight_def dict_get_def)
  have f: "stock_of cheap_fruit_store ''fruits'' = 1 \<and> stock_of sold_out_store ''fruits'' = 0
           \<and> sales_of sold_out_store ''fruits'' = 1
           \<and> distinct (dict_keys (stock cheap_fruit_store))"
    by (simp add: cheap_fruit_store_eval sold_out_store_eval stock_of_def sales_of_def
        dict_get_def dict_keys_def)
  from sell_one_product_correct [OF a b, of fruit_tape] c
  have "sell_one_product sold_out_store fruit_tape = Inr (None, sold_out_store, fruit_tape)"
    by blast
  with c d e f show ?thesis by simp
qed

text \<open>
  Claim C9. A product \<open>B\<close> whose demand weight in the table is 0.0 is never the
  product returned by \<^verbatim>\<open>sell_one_product\<close>, whatever the random draw, when the
  total weight over the available products is positive (as it is when some product
  \<open>A\<close> in stock has a positive weight and no weight is negative).
\<close>

theorem zero_weight_never_sold:
  assumes "map_of (demand_weights g) B = Some 0"
    and "0 < sum_list (map (demand_weight g) (available_products g))"
  shows "sell_one_product g np \<noteq> Inr (Some B, g', np')"
proof
  assume sold: "sell_one_product g np = Inr (Some B, g', np')"
  let ?a = "available_products g"
  from sold have ne: "?a \<noteq> []"
    by (auto simp: sell_one_product_def Let_def split: if_splits)
  with sold obtain np1 where "np_choice ?a (sale_weights g ?a) np = Inr (B, np1)"
    by (auto simp: sell_one_product_def Let_def split: sum.splits prod.splits)
  from np_choice_result [OF this length_sale_weights]
  obtain i where i: "i < length ?a" and B: "?a ! i = B" and nz: "sale_weights g ?a ! i \<noteq> 0"
    by blast
  have "demand_weight g B = 0" using assms(1) by (simp add: demand_weight_def dict_get_def)
  moreover have "sale_weights g ?a ! i
      = demand_weight g (?a ! i) / sum_list (map (demand_weight g) ?a)"
    using i assms(2) by (simp add: sale_weights_def Let_def demand_weight_def [abs_def])
  ultimately show False using nz B by simp
qed



theorem zero_weight_never_sold_witness:
  "map_of (demand_weights ab_store) ''B'' = Some 0
   \<and> map_of (demand_weights ab_store) ''A'' = Some 1
   \<and> available_products ab_store = [''A'', ''B'']
   \<and> sum_list (map (demand_weight ab_store) (available_products ab_store)) = 1
   \<and> (\<forall>np g' np'. sell_one_product ab_store np \<noteq> Inr (Some ''B'', g', np'))"
proof -
  have a: "map_of (demand_weights ab_store) ''B'' = Some 0"
    by (simp add: ab_store_def Grocery_def)
  have b: "map_of (demand_weights ab_store) ''A'' = Some 1"
    by (simp add: ab_store_def Grocery_def)
  have c: "available_products ab_store = [''A'', ''B'']"
    by (simp add: ab_store_def Grocery_def available_products_def)
  have d: "sum_list (map (demand_weight ab_store) (available_products ab_store)) = 1"
    by (simp add: c) (simp add: ab_store_def Grocery_def demand_weight_def dict_get_def)
  have e: "0 < sum_list (map (demand_weight ab_store) (available_products ab_store))"
    by (simp add: d)
  from zero_weight_never_sold [OF a e] a b c d show ?thesis by simp
qed

section \<open>Grocery: stock is never negative\<close>

lemma stock_ok_set:
  assumes "stock_ok g" and "0 \<le> v"
  shows "stock_ok (g\<lparr>stock := dict_set k v (stock g)\<rparr>)"
proof -
  have "set (dict_set k v (stock g)) \<subseteq> insert (k, v) (set (stock g))"
    by (rule dict_set_subset)
  with assms show ?thesis
    by (auto simp: stock_ok_def dict_set_distinct list_all_iff)
qed

lemma stock_ok_lookup: "stock_ok g \<Longrightarrow> 0 \<le> dict_get (stock g) p 0"
  by (force simp: stock_ok_def dict_get_def list_all_iff split: option.splits dest: map_of_SomeD)

lemma stock_ok_cong: "stock g' = stock g \<Longrightarrow> stock_ok g' = stock_ok g"
  by (simp add: stock_ok_def)

lemma add_stock_unit_ok:
  "stock_ok (fst gr) \<Longrightarrow> stock_ok (fst (add_stock_unit supp product gr))"
proof -
  assume ok: "stock_ok (fst gr)"
  obtain g rnd where gr: "gr = (g, rnd)" by (cases gr)
  let ?g1 = "g\<lparr>stock := dict_set product (dict_get (stock g) product 0 + 1) (stock g)\<rparr>"
  have "stock_ok ?g1"
    using ok gr stock_ok_lookup [of g product] by (intro stock_ok_set) simp_all
  moreover have "stock (fst (add_stock_unit supp product gr)) = stock ?g1"
    by (simp add: gr add_stock_unit_def Let_def split: prod.splits)
  ultimately show ?thesis by (simp add: stock_ok_def)
qed

lemma fold_add_stock_unit_ok:
  "stock_ok (fst gr) \<Longrightarrow> stock_ok (fst (fold (add_stock_unit supp) products gr))"
  by (induction products arbitrary: gr) (simp_all add: add_stock_unit_ok)

lemma add_stock_ok: "stock_ok g \<Longrightarrow> stock_ok (fst (add_stock g supp quantity rnd))"
  using fold_add_stock_unit_ok [of "(g, rnd)"]
  by (simp add: add_stock_def split: prod.splits) (metis fst_conv)

lemma sell_one_product_ok:
  assumes "stock_ok g" and "sell_one_product g np = Inr (sold, g', np')"
  shows "stock_ok g'"
proof (cases "available_products g = []")
  case True
  with assms show ?thesis by (simp add: sell_none)
next
  case False
  with assms(2) obtain p np1 where
    ch: "np_choice (available_products g) (sale_weights g (available_products g)) np = Inr (p, np1)"
    and st: "stock g' = dict_set p (dict_get (stock g) p 0 - 1) (stock g)"
    by (auto simp: sell_one_product_def Let_def split: sum.splits prod.splits)
  from np_choice_result [OF ch length_sale_weights]
  have "p \<in> set (available_products g)" by (metis nth_mem)
  then have "0 < stock_of g p"
    using assms(1) by (simp add: available_stock_of stock_ok_def)
  then have "stock_ok (g\<lparr>stock := dict_set p (dict_get (stock g) p 0 - 1) (stock g)\<rparr>)"
    using assms(1) by (intro stock_ok_set) (simp_all add: stock_of_def)
  with st show ?thesis by (simp add: stock_ok_def)
qed

lemma run_op_ok: "stock_ok g \<Longrightarrow> stock_ok (run_op op g)"
proof (cases op)
  case (AddStock supp quantity rnd)
  assume "stock_ok g"
  with AddStock show ?thesis by (simp add: add_stock_ok)
next
  case ApplyDiscounts
  assume "stock_ok g"
  with ApplyDiscounts show ?thesis by (simp add: stock_ok_def apply_discounts_frame)
next
  case (SellOneProduct np)
  assume "stock_ok g"
  with SellOneProduct show ?thesis
    by (auto split: sum.splits prod.splits dest: sell_one_product_ok)
next
  case ResetSalesCounters
  assume "stock_ok g"
  with ResetSalesCounters show ?thesis by (simp add: stock_ok_def reset_sales_counters_def)
qed

lemma fold_run_op_ok: "stock_ok g \<Longrightarrow> stock_ok (fold run_op ops g)"
  by (induction ops arbitrary: g) (simp_all add: run_op_ok)


text \<open>
  Claim C4. Starting from a store with empty stock, after any sequence of
  \<^verbatim>\<open>add_stock\<close>, \<^verbatim>\<open>apply_discounts\<close>, \<^verbatim>\<open>sell_one_product\<close> and
  \<^verbatim>\<open>reset_sales_counters\<close>, with any suppliers, quantities and random draws, the
  stock of every product is at least 0.
\<close>

theorem stock_never_negative:
  assumes "stock g0 = []"
  shows "0 \<le> stock_of (fold run_op ops g0) p"
proof -
  have "stock_ok g0" using assms by (simp add: stock_ok_def dict_keys_def)
  then have "stock_ok (fold run_op ops g0)" by (rule fold_run_op_ok)
  then show ?thesis by (simp add: stock_of_def stock_ok_lookup)
qed

theorem stock_never_negative_witness:
  "stock (Grocery flat_discount 5) = []
   \<and> stock (fold run_op [AddStock fruit_supplier 1 (fruit_tape\<lparr>pos := 2\<rparr>),
        SellOneProduct fruit_tape, ApplyDiscounts, ResetSalesCounters]
        (Grocery flat_discount 5)) = [(''fruits'', 0)]
   \<and> 0 \<le> stock_of (fold run_op [AddStock fruit_supplier 1 (fruit_tape\<lparr>pos := 2\<rparr>),
        SellOneProduct fruit_tape, ApplyDiscounts, ResetSalesCounters]
        (Grocery flat_discount 5)) ''fruits''"
proof -
  have a: "stock (Grocery flat_discount 5) = []" by (simp add: Grocery_def)
  have b: "stock (fold run_op [AddStock fruit_supplier 1 (fruit_tape\<lparr>pos := 2\<rparr>),
        SellOneProduct fruit_tape, ApplyDiscounts, ResetSalesCounters]
        (Grocery flat_discount 5)) = [(''fruits'', 0)]"
    by (simp add: fruit_supplier_eval add_stock_def add_stock_unit_def
      supply_products_def Grocery_def get_price_def sell_one_product_def
      available_products_def sale_weights_def np_choice_def gen_defs fruit_tape_def
      reset_sales_counters_def apply_discounts_def discount_product_def
      dict_get_def dict_keys_def Let_def)
  from a b stock_never_negative [OF a] show ?thesis by (intro conjI)
qed

section \<open>Simulation: the days are started together\<close>

text \<open>
  \<^verbatim>\<open>run_simulation\<close> calls \<^verbatim>\<open>env.process(self.run_day(day))\<close> for every day in a
  \<^verbatim>\<open>for\<close> loop and only then \<^verbatim>\<open>env.run()\<close>; nothing makes the process of day
  \<open>d + 1\<close> wait for the one of day \<open>d\<close>.  Restocking changes the suppliers, the
  store and the module generator only.
\<close>

lemma restock_all_suppliers_eq:
  "restock_all_suppliers n w =
     w\<lparr>suppliers := fst (restock_list n (suppliers w) (grocery w) (py_random w)),
       grocery := fst (snd (restock_list n (suppliers w) (grocery w) (py_random w))),
       py_random := snd (snd (restock_list n (suppliers w) (grocery w) (py_random w)))\<rparr>"
  by (simp add: restock_all_suppliers_def split: prod.splits)

text \<open>
  Claim C2 (strict sequencing of the days) does not hold of the code.  For a
  two-day simulation, whatever the suppliers, the store, the customers and the
  generators are, the first two steps of the scheduler succeed and run the
  restock and the discounts of day 1 and then those of day 2, all at time 0:
  day 2 has restocked and discounted while the ledger is still the initial one
  and no customer of day 1 has been served; the only events then pending are
  the customer processes of the two days.
\<close>

theorem days_start_together:
  "\<exists>w1 w2.
     step rnd (spawn_days ((start (sim\<lparr>days := 2\<rparr>) py np)\<lparr>rng := r\<rparr>)) = Some (Inr w1)
     \<and> step rnd w1 = Some (Inr w2)
     \<and> trace w2 = [(0, Restock 1), (0, Discount 1), (0, Restock 2), (0, Discount 2)]
     \<and> now w2 = 0
     \<and> daily_balances w2 = daily_balances sim
     \<and> map (\<lambda>q. snd (snd (snd q))) (queue w2) = [InitCustomers 1, InitCustomers 2]"
  by (simp add: spawn_days_def start_def step_def run_day_start_def schedule_def log_action_def
      restock_all_suppliers_eq before_def URGENT_def Let_def upt_rec)

section \<open>Simulation: rounding to cents\<close>

lemma round_half_even_near: "\<bar>of_int (round_half_even x) - x\<bar> \<le> 1 / 2"
proof -
  have "of_int \<lfloor>x\<rfloor> \<le> x" and "x < of_int \<lfloor>x\<rfloor> + 1" by linarith+
  then show ?thesis
    by (auto simp: round_half_even_def Let_def)
qed

lemma round2_nearest: "nearest_cent round2"
proof -
  have "\<bar>round2 x - x\<bar> \<le> 1 / 200" for x
    using round_half_even_near [of "x * 100"] by (simp add: round2_def field_simps)
  moreover have "\<exists>k::int. round2 x = of_int k / 100" for x
    by (auto simp: round2_def)
  ultimately show ?thesis by (simp add: nearest_cent_def)
qed

lemma nearest_centE:
  assumes "nearest_cent rnd"
  obtains k :: int where "rnd x = of_int k / 100" and "\<bar>of_int k - x * 100\<bar> \<le> 1 / 2"
proof -
  from assms obtain k :: int where k: "rnd x = of_int k / 100" and near: "\<bar>rnd x - x\<bar> \<le> 1 / 200"
    by (auto simp: nearest_cent_def)
  from near have "\<bar>of_int k - x * 100\<bar> \<le> 1 / 2" by (simp add: k field_simps)
  with k show ?thesis by (rule that)
qed


lemma nearest_cent_whole:
  assumes "nearest_cent rnd" and "x \<in> \<int>"
  shows "rnd x = x"
proof -
  from assms(2) obtain m :: int where m: "x = of_int m" by (auto elim: Ints_cases)
  from assms(1) obtain k :: int where k: "rnd x = of_int k / 100"
    and near: "\<bar>of_int k - x * 100\<bar> \<le> 1 / 2" by (rule nearest_centE)
  have "(of_int (k - 100 * m) :: real) = of_int k - x * 100" by (simp add: m)
  with near have "\<bar>of_int (k - 100 * m) :: real\<bar> < 1" by linarith
  then have "\<bar>k - 100 * m\<bar> < 1" by (metis of_int_abs of_int_less_iff of_int_1)
  then have "k = 100 * m" by linarith
  then have "rnd x = of_int m" by (simp add: k)
  then show ?thesis by (simp only: m)
qed



section \<open>Simulation: what a run keeps true of the ledger\<close>























section \<open>Simulation: two runs of one day\<close>

text \<open>
  One supplier, a fresh store, one day, seed 32.  The local generator gives 8 customers,
  service times of 1.25 and distances of 18 km.  In the first run the module-level
  generator of \<^verbatim>\<open>random\<close> produces the word 0 forever: the supplier makes
  proteins at cost 1, the store prices them at 1.20 and sells five at 1.08.  In the
  second it produces the word \<open>3 * 2 ^ 51\<close>: sweets at cost 4, priced at 5.70 and sold
  at 5.13.  The runs are evaluated event by event.
\<close>

lemmas one_defs = add_one_product_def maybe_update_cost_def
  product_types_def dict_get_def dict_keys_def gen_defs Let_def tape_def

lemma pop_many_numeral:
  "pop_many (numeral k) ps =
     (case pop_many (pred_numeral k) (butlast ps) of (out, rest) \<Rightarrow> (last ps # out, rest))"
  by (simp add: numeral_eq_Suc)

lemma restock_P:
  "add_products \<lparr>sup_id = 0, sup_products = [], sup_prices = []\<rparr> (Some 10) \<lparr>draws = (\<lambda>n. 0), pos = 0\<rparr> =
     (\<lparr>sup_id = 0, sup_products = [''proteins'', ''proteins'', ''proteins'', ''proteins'', ''proteins'',
        ''proteins'', ''proteins'', ''proteins'', ''proteins'', ''proteins''], sup_prices = [(''proteins'', 1)]\<rparr>,
      \<lparr>draws = (\<lambda>n. 0), pos = 20\<rparr>)"
  apply (simp add: add_products_def)
  apply ((subst add_many_products_numeral, simp add: one_defs)+)
  done

lemma stock_P:
  "add_stock
     \<lparr>stock = [], prices = [], costs = [], sales_count = [], num_cashiers = 5,
      discount_sim = flat_discount,
      demand_weights = [(''proteins'', 3 / 10), (''carbohydrates'', 1 / 4),
        (''fruits'', 1 / 5), (''vegetables'', 3 / 20), (''sweets'', 1 / 10)]\<rparr>
     \<lparr>sup_id = 0, sup_products = [''proteins'', ''proteins'', ''proteins'', ''proteins'', ''proteins'',
        ''proteins'', ''proteins'', ''proteins'', ''proteins'', ''proteins''], sup_prices = [(''proteins'', 1)]\<rparr>
     5 \<lparr>draws = (\<lambda>n. 0), pos = 20\<rparr> =
   (\<lparr>stock = [(''proteins'', 5)], prices = [(''proteins'', 6 / 5)], costs = [(''proteins'', 1)],
      sales_count = [], num_cashiers = 5,
      discount_sim = flat_discount,
      demand_weights = [(''proteins'', 3 / 10), (''carbohydrates'', 1 / 4),
        (''fruits'', 1 / 5), (''vegetables'', 3 / 20), (''sweets'', 1 / 10)]\<rparr>,
    \<lparr>sup_id = 0, sup_products = [''proteins'', ''proteins'', ''proteins'', ''proteins'', ''proteins''],
       sup_prices = [(''proteins'', 1)]\<rparr>,
    \<lparr>draws = (\<lambda>n. 0), pos = 21\<rparr>)"
  apply (simp add: add_stock_def supply_products_def pop_many_numeral)
  apply (simp add: add_stock_unit_def get_price_def dict_get_def dict_keys_def gen_defs Let_def)
  done

lemmas step_defs = step_def run_day_start_def run_day_record_def run_day_finish_def
  customers_start_def customers_granted_def customers_served_def accrue_def next_customer_def
  request_def release_def trigger_put_def schedule_def log_action_def restock_all_suppliers_def
  before_def URGENT_def NORMAL_def calculate_delivery_cost_def
  apply_discounts_def discount_product_def compute_discount_def price_floor_def
  flat_discount_def sell_one_product_def available_products_def sale_weights_def np_choice_def
  reset_sales_counters_def dict_get_def dict_keys_def gen_defs Let_def

lemma run_P:
  "ledger (run_simulation toy_Random rnd (sim1 1) 32 (tape 0) (tape 0) 100) =
     Some (Inr [day_entry rnd 1 (27 / 5) 5 50 5,
                total_entry rnd [day_entry rnd 1 (27 / 5) 5 50 5]])"
  apply (simp add: ledger_def run_simulation_def spawn_days_def start_def sim1_def schedule_def
      toy_Random_def tape_def Supplier_def Grocery_def URGENT_def upt_rec)
  apply ((subst env_run.simps, simp add: step_defs restock_P stock_P)+)
  done

lemma restock_S:
  "add_products \<lparr>sup_id = 0, sup_products = [], sup_prices = []\<rparr> (Some 10)
       \<lparr>draws = (\<lambda>n. 6755399441055744), pos = 0\<rparr> =
     (\<lparr>sup_id = 0, sup_products = [''sweets'', ''sweets'', ''sweets'', ''sweets'', ''sweets'', ''sweets'', ''sweets'', ''sweets'', ''sweets'', ''sweets''], sup_prices = [(''sweets'', 4)]\<rparr>,
      \<lparr>draws = (\<lambda>n. 6755399441055744), pos = 20\<rparr>)"
  apply (simp add: add_products_def)
  apply ((subst add_many_products_numeral, simp add: one_defs)+)
  done

lemma stock_S:
  "add_stock
     \<lparr>stock = [], prices = [], costs = [], sales_count = [], num_cashiers = 5,
      discount_sim = flat_discount,
      demand_weights = [(''proteins'', 3 / 10), (''carbohydrates'', 1 / 4),
        (''fruits'', 1 / 5), (''vegetables'', 3 / 20), (''sweets'', 1 / 10)]\<rparr>
     \<lparr>sup_id = 0, sup_products = [''sweets'', ''sweets'', ''sweets'', ''sweets'', ''sweets'', ''sweets'', ''sweets'', ''sweets'', ''sweets'', ''sweets''], sup_prices = [(''sweets'', 4)]\<rparr>
     5 \<lparr>draws = (\<lambda>n. 6755399441055744), pos = 20\<rparr> =
   (\<lparr>stock = [(''sweets'', 5)], prices = [(''sweets'', 57 / 10)], costs = [(''sweets'', 4)], sales_count = [], num_cashiers = 5,
      discount_sim = flat_discount,
      demand_weights = [(''proteins'', 3 / 10), (''carbohydrates'', 1 / 4),
        (''fruits'', 1 / 5), (''vegetables'', 3 / 20), (''sweets'', 1 / 10)]\<rparr>,
    \<lparr>sup_id = 0, sup_products = [''sweets'', ''sweets'', ''sweets'', ''sweets'', ''sweets''], sup_prices = [(''sweets'', 4)]\<rparr>,
    \<lparr>draws = (\<lambda>n. 6755399441055744), pos = 21\<rparr>)"
  apply (simp add: add_stock_def supply_products_def pop_many_numeral)
  apply (simp add: add_stock_unit_def get_price_def dict_get_def dict_keys_def gen_defs Let_def)
  done

lemma run_S:
  "ledger (run_simulation toy_Random rnd (sim1 1) 32 (tape (3 * 2 ^ 51)) (tape 0) 100) =
     Some (Inr [day_entry rnd 1 (513 / 20) 20 50 5,
                total_entry rnd [day_entry rnd 1 (513 / 20) 20 50 5]])"
  apply (simp add: ledger_def run_simulation_def spawn_days_def start_def sim1_def schedule_def
      toy_Random_def tape_def Supplier_def Grocery_def URGENT_def upt_rec)
  apply ((subst env_run.simps, simp add: step_defs restock_S stock_S)+)
  done

section \<open>Simulation: the ledger\<close>



text \<open>
  Claim C1 (same seed, same ledger) does not hold of the code.  \<^verbatim>\<open>run_simulation(seed)\<close>
  seeds only its local generator \<^verbatim>\<open>rng\<close>; \<^verbatim>\<open>Supplier.add_products\<close> and
  \<^verbatim>\<open>Grocery.add_stock\<close> draw from the module-level generator of \<^verbatim>\<open>random\<close> and
  \<^verbatim>\<open>Grocery.sell_one_product\<close> from the one of \<^verbatim>\<open>numpy.random\<close>, which no seed
  of the simulation reaches.  Two runs of the same simulation with the same seed 32, which
  differ only in the state of the module-level generator of \<^verbatim>\<open>random\<close>, both return a
  ledger, and the ledgers differ: the cost of the goods sold on day 1 is 5 in one and 20
  in the other.
\<close>

theorem same_seed_different_ledgers:
  assumes "nearest_cent rnd"
  shows "\<exists>l1 l2.
     ledger (run_simulation toy_Random rnd (sim1 1) 32 (tape 0) (tape 0) 100) = Some (Inr l1)
     \<and> ledger (run_simulation toy_Random rnd (sim1 1) 32 (tape (3 * 2 ^ 51)) (tape 0) 100)
         = Some (Inr l2)
     \<and> l1 \<noteq> l2 \<and> cogs (hd l1) = 5 \<and> cogs (hd l2) = 20"
proof -
  let ?l1 = "[day_entry rnd 1 (27 / 5) 5 50 5, total_entry rnd [day_entry rnd 1 (27 / 5) 5 50 5]]"
  let ?l2 = "[day_entry rnd 1 (513 / 20) 20 50 5,
              total_entry rnd [day_entry rnd 1 (513 / 20) 20 50 5]]"
  have whole: "rnd 5 = 5" "rnd 20 = 20"
    using assms by (simp_all add: nearest_cent_whole)
  then have c1: "cogs (hd ?l1) = 5" and c2: "cogs (hd ?l2) = 20"
    by (simp_all add: day_entry_def)
  then have "cogs (hd ?l1) \<noteq> cogs (hd ?l2)" by simp
  then have d: "?l1 \<noteq> ?l2" by metis
  have r1: "ledger (run_simulation toy_Random rnd (sim1 1) 32 (tape 0) (tape 0) 100)
      = Some (Inr ?l1)"
    by (rule run_P)
  have r2: "ledger (run_simulation toy_Random rnd (sim1 1) 32 (tape (3 * 2 ^ 51)) (tape 0) 100)
      = Some (Inr ?l2)"
    by (rule run_S)
  from r1 r2 d c1 c2 show ?thesis by blast
qed

theorem same_seed_different_ledgers_witness:
  "nearest_cent round2
   \<and> (\<exists>l1 l2.
     ledger (run_simulation toy_Random round2 (sim1 1) 32 (tape 0) (tape 0) 100) = Some (Inr l1)
     \<and> ledger (run_simulation toy_Random round2 (sim1 1) 32 (tape (3 * 2 ^ 51)) (tape 0) 100)
         = Some (Inr l2)
     \<and> l1 \<noteq> l2 \<and> cogs (hd l1) = 5 \<and> cogs (hd l2) = 20)"
  using same_seed_different_ledgers [OF round2_nearest] round2_nearest by (intro conjI)

end
